theory Spec2Isabelle
  imports Complex_Main "HOL-Library.Sublist"
begin

section \<open>Array elements\<close>

text \<open>
  The transformations of \<^verbatim>\<open>catenets/models/transformation_utils.py\<close> are
  arithmetic on numpy arrays of 64-bit floats. An element is modelled as a real number or
  one of the three special values of IEEE arithmetic. What the model keeps of the format:
  \<^item> a division by zero is no exception, it yields an infinity or a NaN;
  \<^item> a result whose magnitude reaches \<open>2 ^ 1024\<close> overflows to an infinity;
  \<^item> infinities and NaN propagate through the later operations.
  A finite result below that bound is kept exact: rounding is outside the model, and so
  is the sign of a zero (a zero divisor counts as \<open>+0.0\<close>, which is what \<open>1 - p\<close> yields
  at \<open>p = 1\<close>). An element \<open>Fin a\<close> with \<open>a\<close> at or beyond the bound is no value of the
  format; no operation yields one. The division of the elements is the operator \<open>/\<close>;
  inside the instantiation its equations have to be written with \<open>div\<close>.
\<close>

datatype fl = Fin real | PInf | NInf | NaN

text \<open>The value of an operation whose exact result is the real \<open>r\<close>.\<close>

definition overflow :: "real \<Rightarrow> fl" where
  "overflow r = (if 2 ^ 1024 \<le> r then PInf else if r \<le> - (2 ^ 1024) then NInf else Fin r)"

instantiation fl :: "{one, uminus, plus, minus, times, inverse}"
begin

definition one_fl :: fl where
  "1 = Fin 1"

fun uminus_fl :: "fl \<Rightarrow> fl" where
  "- Fin a = Fin (- a)"
| "- PInf = NInf"
| "- NInf = PInf"
| "- NaN = NaN"

fun plus_fl :: "fl \<Rightarrow> fl \<Rightarrow> fl" where
  "Fin a + Fin b = overflow (a + b)"
| "NaN + b = NaN"
| "a + NaN = NaN"
| "PInf + NInf = NaN"
| "NInf + PInf = NaN"
| "PInf + b = PInf"
| "a + PInf = PInf"
| "NInf + b = NInf"
| "a + NInf = NInf"

definition minus_fl :: "fl \<Rightarrow> fl \<Rightarrow> fl" where
  "a - b = a + (- b :: fl)"

fun times_fl :: "fl \<Rightarrow> fl \<Rightarrow> fl" where
  "Fin a * Fin b = overflow (a * b)"
| "NaN * b = NaN"
| "a * NaN = NaN"
| "PInf * Fin b = (if b = 0 then NaN else if 0 < b then PInf else NInf)"
| "NInf * Fin b = (if b = 0 then NaN else if 0 < b then NInf else PInf)"
| "Fin a * PInf = (if a = 0 then NaN else if 0 < a then PInf else NInf)"
| "Fin a * NInf = (if a = 0 then NaN else if 0 < a then NInf else PInf)"
| "PInf * PInf = PInf"
| "PInf * NInf = NInf"
| "NInf * PInf = NInf"
| "NInf * NInf = PInf"

fun divide_fl :: "fl \<Rightarrow> fl \<Rightarrow> fl" where
  "Fin a div Fin b =
     (if b = 0 then (if a = 0 then NaN else if 0 < a then PInf else NInf)
      else overflow (a / b))"
| "NaN div b = NaN"
| "a div NaN = NaN"
| "Fin a div PInf = Fin 0"
| "Fin a div NInf = Fin 0"
| "PInf div Fin b = (if 0 \<le> b then PInf else NInf)"
| "NInf div Fin b = (if 0 \<le> b then NInf else PInf)"
| "PInf div PInf = NaN"
| "PInf div NInf = NaN"
| "NInf div PInf = NaN"
| "NInf div NInf = NaN"

definition inverse_fl :: "fl \<Rightarrow> fl" where
  "inverse a = (1 :: fl) div a"

instance ..

end

fun is_finite :: "fl \<Rightarrow> bool" where
  "is_finite (Fin a) = True"
| "is_finite PInf = False"
| "is_finite NInf = False"
| "is_finite NaN = False"

section \<open>Arrays and the errors of a call\<close>

text \<open>
  A one-dimensional numpy array is the list of its elements. A call returns a value or
  raises: \<open>Inl\<close> carries the exception. \<open>ValueError\<close> is raised by the lookup of a
  transformation and by numpy when two operands cannot be broadcast together (its
  message, which prints the two shapes, is shortened here); \<open>KeyError\<close> is what a
  failing subscript of a dictionary raises.
\<close>

type_synonym ndarray = "fl list"

datatype error = ValueError string | KeyError string

text \<open>\<^verbatim>\<open>onp.full(n, v)\<close>: the array of \<open>n\<close> copies of \<open>v\<close>.\<close>

definition full :: "nat \<Rightarrow> fl \<Rightarrow> ndarray" where
  "full n v = replicate n v"

text \<open>
  An elementwise binary operator of numpy on two one-dimensional arrays: arrays of one
  length are combined position by position, an array of length one is stretched to the
  length of the other, and any other pair of lengths raises.
\<close>

definition broadcast :: "(fl \<Rightarrow> fl \<Rightarrow> fl) \<Rightarrow> ndarray \<Rightarrow> ndarray \<Rightarrow> error + ndarray" where
  "broadcast f xs ys =
     (if length xs = length ys then Inr (map2 f xs ys)
      else if length xs = 1 then Inr (map (f (hd xs)) ys)
      else if length ys = 1 then Inr (map (\<lambda>x. f x (hd ys)) xs)
      else Inl (ValueError ''operands could not be broadcast together''))"

text \<open>
  The operators as they stand in an expression: the left operand is evaluated first, then
  the right one, then the operator is applied; the first exception ends the evaluation.
\<close>

definition elementwise ::
  "(fl \<Rightarrow> fl \<Rightarrow> fl) \<Rightarrow> error + ndarray \<Rightarrow> error + ndarray \<Rightarrow> error + ndarray" where
  "elementwise f a b =
     (case a of
        Inl e \<Rightarrow> Inl e
      | Inr xs \<Rightarrow> (case b of Inl e \<Rightarrow> Inl e | Inr ys \<Rightarrow> broadcast f xs ys))"

definition arr_add :: "error + ndarray \<Rightarrow> error + ndarray \<Rightarrow> error + ndarray" where
  "arr_add = elementwise (+)"

definition arr_sub :: "error + ndarray \<Rightarrow> error + ndarray \<Rightarrow> error + ndarray" where
  "arr_sub = elementwise (-)"

definition arr_mul :: "error + ndarray \<Rightarrow> error + ndarray \<Rightarrow> error + ndarray" where
  "arr_mul = elementwise (*)"

definition arr_div :: "error + ndarray \<Rightarrow> error + ndarray \<Rightarrow> error + ndarray" where
  "arr_div = elementwise (/)"

text \<open>\<^verbatim>\<open>c - a\<close> for a scalar \<open>c\<close> and an array \<open>a\<close>.\<close>

definition scalar_sub :: "fl \<Rightarrow> error + ndarray \<Rightarrow> error + ndarray" where
  "scalar_sub c a = (case a of Inl e \<Rightarrow> Inl e | Inr xs \<Rightarrow> Inr (map (\<lambda>x. c - x) xs))"

section \<open>The transformations\<close>

definition HT_TRANSFORMATION :: string where
  "HT_TRANSFORMATION = ''HT''"

definition AIPW_TRANSFORMATION :: string where
  "AIPW_TRANSFORMATION = ''AIPW''"

definition RA_TRANSFORMATION :: string where
  "RA_TRANSFORMATION = ''RA''"

definition ALL_TRANSFORMATIONS :: "string list" where
  "ALL_TRANSFORMATIONS = [HT_TRANSFORMATION, AIPW_TRANSFORMATION, RA_TRANSFORMATION]"

text \<open>
  The propensity \<open>p\<close> is an array or \<^verbatim>\<open>None\<close>. An argument that a function never reads
  (\<open>mu_0\<close> and \<open>mu_1\<close> of the Horvitz-Thompson transformation, \<open>p\<close> of the regression
  adjustment) may be any value at all: its type is a type variable.
\<close>

definition aipw_te_transformation ::
  "ndarray \<Rightarrow> ndarray \<Rightarrow> ndarray option \<Rightarrow> ndarray \<Rightarrow> ndarray \<Rightarrow> error + ndarray" where
  "aipw_te_transformation y w p mu_0 mu_1 =
     (let p = (case p of None \<Rightarrow> full (length y) (Fin (1 / 2)) | Some a \<Rightarrow> a);
          w_1 = arr_div (Inr w) (Inr p);
          w_0 = arr_div (scalar_sub 1 (Inr w)) (scalar_sub 1 (Inr p))
      in arr_add (arr_mul (arr_sub w_1 w_0) (Inr y))
           (arr_sub (arr_mul (scalar_sub 1 w_1) (Inr mu_1))
                    (arr_mul (scalar_sub 1 w_0) (Inr mu_0))))"

definition ht_te_transformation ::
  "ndarray \<Rightarrow> ndarray \<Rightarrow> ndarray option \<Rightarrow> 'a \<Rightarrow> 'b \<Rightarrow> error + ndarray" where
  "ht_te_transformation y w p mu_0 mu_1 =
     (let p = (case p of None \<Rightarrow> full (length y) (Fin (1 / 2)) | Some a \<Rightarrow> a)
      in arr_mul
           (arr_sub (arr_div (Inr w) (Inr p))
                    (arr_div (scalar_sub 1 (Inr w)) (scalar_sub 1 (Inr p))))
           (Inr y))"

definition ra_te_transformation ::
  "ndarray \<Rightarrow> ndarray \<Rightarrow> 'a \<Rightarrow> ndarray \<Rightarrow> ndarray \<Rightarrow> error + ndarray" where
  "ra_te_transformation y w p mu_0 mu_1 =
     arr_add (arr_mul (Inr w) (arr_sub (Inr y) (Inr mu_0)))
             (arr_mul (scalar_sub 1 (Inr w)) (arr_sub (Inr mu_1) (Inr y)))"

section \<open>The registry\<close>

text \<open>
  The dictionary holds the functions themselves, at the one type under which a caller
  invokes any of them.
\<close>

type_synonym transformation =
  "ndarray \<Rightarrow> ndarray \<Rightarrow> ndarray option \<Rightarrow> ndarray \<Rightarrow> ndarray \<Rightarrow> error + ndarray"

definition TRANSFORMATION_DICT :: "string \<rightharpoonup> transformation" where
  "TRANSFORMATION_DICT =
     map_of [(HT_TRANSFORMATION, ht_te_transformation),
             (RA_TRANSFORMATION, ra_te_transformation),
             (AIPW_TRANSFORMATION, aipw_te_transformation)]"

text \<open>
  \<^verbatim>\<open>_get_transformation_function\<close> (an Isabelle name cannot begin with an underscore).
  The subscript \<^verbatim>\<open>TRANSFORMATION_DICT[transformation_name]\<close> raises \<^verbatim>\<open>KeyError\<close> on a
  key the dictionary does not have.
\<close>

definition get_transformation_function :: "string \<Rightarrow> error + transformation" where
  "get_transformation_function transformation_name =
     (if transformation_name \<notin> set ALL_TRANSFORMATIONS
      then Inl (ValueError
        (''Parameter first stage should be in '' @
         ''catenets.models.transformations.ALL_TRANSFORMATIONS.'' @
         '' You passed '' @ transformation_name))
      else (case TRANSFORMATION_DICT transformation_name of
              None \<Rightarrow> Inl (KeyError transformation_name)
            | Some f \<Rightarrow> Inr f))"

section \<open>The transformations on a store of arrays\<close>

text \<open>
  The store holds the arrays that exist; a reference to an array is its index. A
  computation takes the store and returns a reference or the exception raised, with the
  store it leaves.
\<close>

type_synonym ref = nat
type_synonym store = "ndarray list"
type_synonym 'a comp = "store \<Rightarrow> (error + 'a) \<times> store"

text \<open>A new array is added at the end of the store; no array already there is touched.\<close>

definition alloc :: "ndarray \<Rightarrow> ref comp" where
  "alloc a s = (Inr (length s), s @ [a])"

text \<open>A variable evaluates to the reference it is bound to.\<close>

definition var :: "ref \<Rightarrow> ref comp" where
  "var r s = (Inr r, s)"

text \<open>An assignment \<^verbatim>\<open>x = c\<close> followed by the rest \<open>g x\<close>: an exception of \<open>c\<close> ends the call.\<close>

definition bind_comp :: "'a comp \<Rightarrow> ('a \<Rightarrow> 'b comp) \<Rightarrow> 'b comp" where
  "bind_comp c g s = (case c s of (Inl e, s') \<Rightarrow> (Inl e, s') | (Inr x, s') \<Rightarrow> g x s')"

text \<open>\<^verbatim>\<open>onp.full(len(y), v)\<close> for the array \<open>y\<close> of the store.\<close>

definition np_full :: "ref \<Rightarrow> fl \<Rightarrow> ref comp" where
  "np_full y v s = alloc (full (length (s ! y)) v) s"

text \<open>
  A binary operator of numpy: both operands are evaluated, left one first, their arrays
  are read, and the result is a new array. None of the operators the functions use
  (\<^verbatim>\<open>+\<close>, \<^verbatim>\<open>-\<close>, \<^verbatim>\<open>*\<close>, \<^verbatim>\<open>/\<close>) is an in-place one, and no function assigns to an
  element of an array.
\<close>

definition np_elementwise :: "(fl \<Rightarrow> fl \<Rightarrow> fl) \<Rightarrow> ref comp \<Rightarrow> ref comp \<Rightarrow> ref comp" where
  "np_elementwise f a b =
     bind_comp a (\<lambda>x. bind_comp b (\<lambda>y s.
       case broadcast f (s ! x) (s ! y) of
         Inl e \<Rightarrow> (Inl e, s)
       | Inr r \<Rightarrow> alloc r s))"

definition np_add :: "ref comp \<Rightarrow> ref comp \<Rightarrow> ref comp" where
  "np_add = np_elementwise (+)"

definition np_sub :: "ref comp \<Rightarrow> ref comp \<Rightarrow> ref comp" where
  "np_sub = np_elementwise (-)"

definition np_mul :: "ref comp \<Rightarrow> ref comp \<Rightarrow> ref comp" where
  "np_mul = np_elementwise (*)"

definition np_div :: "ref comp \<Rightarrow> ref comp \<Rightarrow> ref comp" where
  "np_div = np_elementwise (/)"

definition np_scalar_sub :: "fl \<Rightarrow> ref comp \<Rightarrow> ref comp" where
  "np_scalar_sub c a = bind_comp a (\<lambda>x s. alloc (map (\<lambda>v. c - v) (s ! x)) s)"

text \<open>
  The three functions statement by statement. \<^verbatim>\<open>p = onp.full(len(y), 0.5)\<close> binds the
  local name \<open>p\<close> to a new array; the caller's array is not written.
\<close>

definition aipw_te_transformation_store ::
  "ref \<Rightarrow> ref \<Rightarrow> ref option \<Rightarrow> ref \<Rightarrow> ref \<Rightarrow> ref comp" where
  "aipw_te_transformation_store y w p mu_0 mu_1 =
     bind_comp (case p of None \<Rightarrow> np_full y (Fin (1 / 2)) | Some a \<Rightarrow> var a) (\<lambda>p.
     bind_comp (np_div (var w) (var p)) (\<lambda>w_1.
     bind_comp (np_div (np_scalar_sub 1 (var w)) (np_scalar_sub 1 (var p))) (\<lambda>w_0.
       np_add (np_mul (np_sub (var w_1) (var w_0)) (var y))
         (np_sub (np_mul (np_scalar_sub 1 (var w_1)) (var mu_1))
                 (np_mul (np_scalar_sub 1 (var w_0)) (var mu_0))))))"

definition ht_te_transformation_store ::
  "ref \<Rightarrow> ref \<Rightarrow> ref option \<Rightarrow> 'a \<Rightarrow> 'b \<Rightarrow> ref comp" where
  "ht_te_transformation_store y w p mu_0 mu_1 =
     bind_comp (case p of None \<Rightarrow> np_full y (Fin (1 / 2)) | Some a \<Rightarrow> var a) (\<lambda>p.
       np_mul
         (np_sub (np_div (var w) (var p))
                 (np_div (np_scalar_sub 1 (var w)) (np_scalar_sub 1 (var p))))
         (var y))"

definition ra_te_transformation_store ::
  "ref \<Rightarrow> ref \<Rightarrow> 'a \<Rightarrow> ref \<Rightarrow> ref \<Rightarrow> ref comp" where
  "ra_te_transformation_store y w p mu_0 mu_1 =
     np_add (np_mul (var w) (np_sub (var y) (var mu_0)))
            (np_mul (np_scalar_sub 1 (var w)) (np_sub (var mu_1) (var y)))"

text \<open>What a call yields, read back from the store it leaves.\<close>

definition outcome :: "ref comp \<Rightarrow> store \<Rightarrow> error + ndarray" where
  "outcome c s = (case c s of (Inl e, s') \<Rightarrow> Inl e | (Inr r, s') \<Rightarrow> Inr (s' ! r))"

text \<open>
  \<open>computes c v s\<close>: started in any store that extends \<open>s\<close>, the computation \<open>c\<close> only
  extends the store, and it yields \<open>v\<close>.
\<close>

definition computes :: "ref comp \<Rightarrow> error + ndarray \<Rightarrow> store \<Rightarrow> bool" where
  "computes c v s \<longleftrightarrow>
     (\<forall>s1. prefix s s1 \<longrightarrow>
        (case c s1 of
           (Inl e, s2) \<Rightarrow> prefix s1 s2 \<and> v = Inl e
         | (Inr r, s2) \<Rightarrow> prefix s1 s2 \<and> r < length s2 \<and> v = Inr (s2 ! r)))"

section \<open>Arithmetic of the elements\<close>

lemma is_finite_uminus: "is_finite (- a) = is_finite a"
  by (cases a) simp_all

lemma not_finite_add: "\<not> is_finite a \<or> \<not> is_finite b \<Longrightarrow> \<not> is_finite (a + b)"
  by (cases a; cases b) simp_all

lemma not_finite_sub: "\<not> is_finite a \<or> \<not> is_finite b \<Longrightarrow> \<not> is_finite (a - b)"
  by (simp add: minus_fl_def not_finite_add is_finite_uminus)

lemma not_finite_mul: "\<not> is_finite a \<or> \<not> is_finite b \<Longrightarrow> \<not> is_finite (a * b)"
  by (cases a; cases b) simp_all

lemma not_finite_div_zero: "\<not> is_finite (a / Fin 0)"
  by (cases a) simp_all









section \<open>The transformations on arrays of one length\<close>

lemma broadcast_same_length:
  "length xs = length ys \<Longrightarrow>
   broadcast f xs ys = Inr (map (\<lambda>i. f (xs ! i) (ys ! i)) [0..<length xs])"
  unfolding broadcast_def by (auto intro: nth_equalityI)

lemma elementwise_same_length:
  "length xs = length ys \<Longrightarrow>
   elementwise f (Inr xs) (Inr ys) = Inr (map (\<lambda>i. f (xs ! i) (ys ! i)) [0..<length xs])"
  by (simp add: elementwise_def broadcast_same_length)

lemma scalar_sub_Inr: "scalar_sub c (Inr xs) = Inr (map (\<lambda>i. c - xs ! i) [0..<length xs])"
  unfolding scalar_sub_def by (auto intro: nth_equalityI)

lemmas arr_defs = arr_add_def arr_sub_def arr_mul_def arr_div_def

lemma ht_te_transformation_Some:
  assumes "length w = length y" "length p = length y"
  shows "ht_te_transformation y w (Some p) mu_0 mu_1 =
    Inr (map (\<lambda>i. (w ! i / p ! i - (1 - w ! i) / (1 - p ! i)) * y ! i) [0..<length y])"
  using assms
  by (simp add: ht_te_transformation_def arr_defs elementwise_same_length scalar_sub_Inr)

lemma ht_te_transformation_None:
  "ht_te_transformation y w None mu_0 mu_1 =
   ht_te_transformation y w (Some (full (length y) (Fin (1 / 2)))) mu_0 mu_1"
  by (simp add: ht_te_transformation_def)

lemma aipw_te_transformation_Some:
  assumes "length w = length y" "length p = length y"
    "length mu_0 = length y" "length mu_1 = length y"
  shows "aipw_te_transformation y w (Some p) mu_0 mu_1 =
    Inr (map (\<lambda>i. (w ! i / p ! i - (1 - w ! i) / (1 - p ! i)) * y ! i
                   + ((1 - w ! i / p ! i) * mu_1 ! i
                      - (1 - (1 - w ! i) / (1 - p ! i)) * mu_0 ! i))
         [0..<length y])"
  using assms
  by (simp add: aipw_te_transformation_def arr_defs elementwise_same_length scalar_sub_Inr)

lemma aipw_te_transformation_None:
  "aipw_te_transformation y w None mu_0 mu_1 =
   aipw_te_transformation y w (Some (full (length y) (Fin (1 / 2)))) mu_0 mu_1"
  by (simp add: aipw_te_transformation_def)

lemma ra_te_transformation_same_length:
  assumes "length w = length y" "length mu_0 = length y" "length mu_1 = length y"
  shows "ra_te_transformation y w p mu_0 mu_1 =
    Inr (map (\<lambda>i. w ! i * (y ! i - mu_0 ! i) + (1 - w ! i) * (mu_1 ! i - y ! i))
         [0..<length y])"
  using assms
  by (simp add: ra_te_transformation_def arr_defs elementwise_same_length scalar_sub_Inr)

section \<open>The registry\<close>

lemmas name_defs = HT_TRANSFORMATION_def AIPW_TRANSFORMATION_def RA_TRANSFORMATION_def
  ALL_TRANSFORMATIONS_def

lemma set_ALL_TRANSFORMATIONS: "set ALL_TRANSFORMATIONS = {''HT'', ''AIPW'', ''RA''}"
  by (simp add: name_defs)

lemma dom_TRANSFORMATION_DICT: "dom TRANSFORMATION_DICT = {''HT'', ''AIPW'', ''RA''}"
  by (simp add: TRANSFORMATION_DICT_def name_defs dom_map_of_conv_image_fst insert_commute)

lemma TRANSFORMATION_DICT_simps:
  "TRANSFORMATION_DICT ''HT'' = Some ht_te_transformation"
  "TRANSFORMATION_DICT ''AIPW'' = Some aipw_te_transformation"
  "TRANSFORMATION_DICT ''RA'' = Some ra_te_transformation"
  by (simp_all add: TRANSFORMATION_DICT_def name_defs)

lemma get_transformation_function_invalid:
  "name \<notin> {''HT'', ''AIPW'', ''RA''} \<Longrightarrow>
   get_transformation_function name = Inl (ValueError
      (''Parameter first stage should be in '' @
       ''catenets.models.transformations.ALL_TRANSFORMATIONS.'' @ '' You passed '' @ name))"
  by (simp add: get_transformation_function_def set_ALL_TRANSFORMATIONS)

lemma get_transformation_function_valid:
  "get_transformation_function ''HT'' = Inr ht_te_transformation"
  "get_transformation_function ''AIPW'' = Inr aipw_te_transformation"
  "get_transformation_function ''RA'' = Inr ra_te_transformation"
  by (simp_all add: get_transformation_function_def set_ALL_TRANSFORMATIONS
      TRANSFORMATION_DICT_simps)

lemma message_names_value_and_set:
  "suffix name (''Parameter first stage should be in '' @
     ''catenets.models.transformations.ALL_TRANSFORMATIONS.'' @ '' You passed '' @ name)"
  "sublist ''catenets.models.transformations.ALL_TRANSFORMATIONS''
     (''Parameter first stage should be in '' @
      ''catenets.models.transformations.ALL_TRANSFORMATIONS.'' @ '' You passed '' @ name)"
proof -
  let ?a = "''Parameter first stage should be in ''"
  let ?b = "''catenets.models.transformations.ALL_TRANSFORMATIONS''"
  let ?c = "'' You passed ''"
  show "suffix name (?a @ ''catenets.models.transformations.ALL_TRANSFORMATIONS.'' @ ?c @ name)"
    unfolding suffix_def
    by (rule exI [of _ "?a @ ''catenets.models.transformations.ALL_TRANSFORMATIONS.'' @ ?c"])
       simp
  show "sublist ?b (?a @ ''catenets.models.transformations.ALL_TRANSFORMATIONS.'' @ ?c @ name)"
    unfolding sublist_def
    by (rule exI [of _ ?a], rule exI [of _ "''.'' @ ?c @ name"]) simp
qed

text \<open>
  Claim C1. The lookup raises \<^verbatim>\<open>ValueError\<close> exactly for the names other than
  \<^verbatim>\<open>"HT"\<close>, \<^verbatim>\<open>"AIPW"\<close> and \<^verbatim>\<open>"RA"\<close>; for each of the three it returns the function
  registered under the name. What it returns is the function, not an array: nothing is
  invoked.
\<close>

theorem get_transformation_function_registry:
  "((\<exists>msg. get_transformation_function name = Inl (ValueError msg)) \<longleftrightarrow>
      name \<notin> {''HT'', ''AIPW'', ''RA''})
   \<and> get_transformation_function ''HT'' = Inr ht_te_transformation
   \<and> get_transformation_function ''AIPW'' = Inr aipw_te_transformation
   \<and> get_transformation_function ''RA'' = Inr ra_te_transformation"
proof -
  have "\<exists>msg. get_transformation_function name = Inl (ValueError msg)"
    if "name \<notin> {''HT'', ''AIPW'', ''RA''}"
    using get_transformation_function_invalid [OF that] by (rule exI)
  moreover have "\<not> (\<exists>msg. get_transformation_function name = Inl (ValueError msg))"
    if "name \<in> {''HT'', ''AIPW'', ''RA''}"
  proof -
    from that consider "name = ''HT''" | "name = ''AIPW''" | "name = ''RA''" by blast
    then show ?thesis
      by cases (simp_all only: get_transformation_function_valid sum.distinct not_False_eq_True
          simp_thms)
  qed
  ultimately show ?thesis
    using get_transformation_function_valid by blast
qed

text \<open>
  Claim C5. For a name outside the three, the message of the error ends with the name
  that was passed, and it names the set of the valid identifiers: it contains
  \<^verbatim>\<open>catenets.models.transformations.ALL_TRANSFORMATIONS\<close>, the qualified name of the list.
\<close>

theorem get_transformation_function_message:
  assumes "name \<notin> {''HT'', ''AIPW'', ''RA''}"
  shows "\<exists>msg. get_transformation_function name = Inl (ValueError msg)
           \<and> suffix name msg
           \<and> sublist ''catenets.models.transformations.ALL_TRANSFORMATIONS'' msg"
  using get_transformation_function_invalid [OF assms] message_names_value_and_set [of name]
  by (intro exI conjI)

theorem get_transformation_function_message_witness:
  "''bogus'' \<notin> {''HT'', ''AIPW'', ''RA''} \<and>
   (\<exists>msg. get_transformation_function ''bogus'' = Inl (ValueError msg)
      \<and> suffix ''bogus'' msg
      \<and> sublist ''catenets.models.transformations.ALL_TRANSFORMATIONS'' msg)"
proof
  show h: "''bogus'' \<notin> {''HT'', ''AIPW'', ''RA''}" by simp
  show "\<exists>msg. get_transformation_function ''bogus'' = Inl (ValueError msg)
      \<and> suffix ''bogus'' msg
      \<and> sublist ''catenets.models.transformations.ALL_TRANSFORMATIONS'' msg"
    by (rule get_transformation_function_message [OF h])
qed

text \<open>
  Claim C9. The list \<open>ALL_TRANSFORMATIONS\<close> and the keys of \<open>TRANSFORMATION_DICT\<close> are
  the same set, the three identifiers; so a name that passes the membership test is a key
  of the dictionary, and the lookup never raises \<^verbatim>\<open>KeyError\<close>.
\<close>

theorem registry_keys_agree:
  "set ALL_TRANSFORMATIONS = dom TRANSFORMATION_DICT
   \<and> dom TRANSFORMATION_DICT = {''HT'', ''AIPW'', ''RA''}
   \<and> (name \<in> set ALL_TRANSFORMATIONS \<longrightarrow>
        (\<exists>f. TRANSFORMATION_DICT name = Some f \<and> get_transformation_function name = Inr f))
   \<and> (\<forall>k. get_transformation_function name \<noteq> Inl (KeyError k))"
proof (intro conjI allI impI)
  show "set ALL_TRANSFORMATIONS = dom TRANSFORMATION_DICT"
    by (simp only: set_ALL_TRANSFORMATIONS dom_TRANSFORMATION_DICT)
  show "dom TRANSFORMATION_DICT = {''HT'', ''AIPW'', ''RA''}"
    by (rule dom_TRANSFORMATION_DICT)
next
  assume "name \<in> set ALL_TRANSFORMATIONS"
  then have "name \<in> dom TRANSFORMATION_DICT"
    by (simp only: set_ALL_TRANSFORMATIONS dom_TRANSFORMATION_DICT)
  then obtain f where f: "TRANSFORMATION_DICT name = Some f" by (blast dest: domD)
  with \<open>name \<in> set ALL_TRANSFORMATIONS\<close>
  have "get_transformation_function name = Inr f"
    by (simp add: get_transformation_function_def)
  with f show "\<exists>f. TRANSFORMATION_DICT name = Some f \<and> get_transformation_function name = Inr f"
    by (intro exI conjI)
next
  fix k
  show "get_transformation_function name \<noteq> Inl (KeyError k)"
  proof (cases "name \<in> set ALL_TRANSFORMATIONS")
    case True
    then have "name \<in> dom TRANSFORMATION_DICT"
      by (simp only: set_ALL_TRANSFORMATIONS dom_TRANSFORMATION_DICT)
    then obtain f where "TRANSFORMATION_DICT name = Some f" by (blast dest: domD)
    with True show ?thesis by (simp add: get_transformation_function_def)
  next
    case False
    then show ?thesis by (simp add: get_transformation_function_def)
  qed
qed

theorem registry_keys_agree_witness:
  "''RA'' \<in> set ALL_TRANSFORMATIONS
   \<and> TRANSFORMATION_DICT ''RA'' = Some ra_te_transformation
   \<and> get_transformation_function ''RA'' = Inr ra_te_transformation"
proof -
  have h: "''RA'' \<in> set ALL_TRANSFORMATIONS" by (simp add: set_ALL_TRANSFORMATIONS)
  have "''RA'' \<in> set ALL_TRANSFORMATIONS \<longrightarrow>
        (\<exists>f. TRANSFORMATION_DICT ''RA'' = Some f \<and> get_transformation_function ''RA'' = Inr f)"
    using registry_keys_agree [of "''RA''"] by (elim conjE)
  with h obtain f where "TRANSFORMATION_DICT ''RA'' = Some f"
     "get_transformation_function ''RA'' = Inr f"
    by (elim impE exE conjE)
  then show ?thesis using h by (simp add: TRANSFORMATION_DICT_simps)
qed

text \<open>
  Claim C7. The result of the Horvitz-Thompson transformation is the same whatever is
  passed for \<open>mu_0\<close> and \<open>mu_1\<close>, and the result of the regression adjustment is the same
  whatever is passed for \<open>p\<close>.
\<close>

theorem placeholders_not_read:
  "ht_te_transformation y w p mu_0 mu_1 = ht_te_transformation y w p mu_0' mu_1'
   \<and> ra_te_transformation y w q nu_0 nu_1 = ra_te_transformation y w q' nu_0 nu_1"
  by (simp add: ht_te_transformation_def ra_te_transformation_def)

section \<open>The formulas of the transformations\<close>

text \<open>
  Claim C2, as amended. On arrays of one length, the efficient-influence-function
  transformation returns the array whose \<open>i\<close>-th element is
  \<open>(w1 - w0) * y[i] + ((1 - w1) * mu_1[i] - (1 - w0) * mu_0[i])\<close> with
  \<open>w1 = w[i] / p[i]\<close> and \<open>w0 = (1 - w[i]) / (1 - p[i])\<close>: the difference of the two
  augmentation terms is formed first and then added to the weighted outcome. Without a
  propensity array, \<open>p[i]\<close> is \<open>0.5\<close> for every unit.
\<close>

theorem aipw_te_transformation_formula:
  assumes "length w = length y" "length mu_0 = length y" "length mu_1 = length y"
    and "case p of None \<Rightarrow> True | Some a \<Rightarrow> length a = length y"
  shows "aipw_te_transformation y w p mu_0 mu_1 =
    Inr (map (\<lambda>i. let p_i = (case p of None \<Rightarrow> Fin (1 / 2) | Some a \<Rightarrow> a ! i);
                       w1 = w ! i / p_i;
                       w0 = (1 - w ! i) / (1 - p_i)
                   in (w1 - w0) * y ! i + ((1 - w1) * mu_1 ! i - (1 - w0) * mu_0 ! i))
         [0..<length y])"
proof (cases p)
  case None
  then show ?thesis
    using assms
    by (simp add: aipw_te_transformation_None aipw_te_transformation_Some full_def Let_def)
next
  case (Some a)
  then show ?thesis
    using assms by (simp add: aipw_te_transformation_Some Let_def)
qed

theorem aipw_te_transformation_formula_witness:
  "aipw_te_transformation [Fin 1, Fin 2] [Fin 1, Fin 0] (Some [Fin (1 / 2), Fin (1 / 2)])
     [Fin 0, Fin 0] [Fin 1, Fin 1] = Inr [Fin 1, Fin (- 3)]
   \<and> aipw_te_transformation [Fin 1, Fin 2] [Fin 1, Fin 0] None
     [Fin 0, Fin 0] [Fin 1, Fin 1] = Inr [Fin 1, Fin (- 3)]
   \<and> aipw_te_transformation [Fin (2 ^ 1022)] [Fin 1] None
       [Fin (2 ^ 1023)] [Fin (- (2 ^ 1023))] = Inr [Fin (2 ^ 1023)]"
  using aipw_te_transformation_formula [of "[Fin 1, Fin 0]" "[Fin 1, Fin 2]" "[Fin 0, Fin 0]"
      "[Fin 1, Fin 1]" "Some [Fin (1 / 2), Fin (1 / 2)]"]
    aipw_te_transformation_formula [of "[Fin 1, Fin 0]" "[Fin 1, Fin 2]" "[Fin 0, Fin 0]"
      "[Fin 1, Fin 1]" None]
    aipw_te_transformation_formula [of "[Fin 1]" "[Fin (2 ^ 1022)]" "[Fin (2 ^ 1023)]"
      "[Fin (- (2 ^ 1023))]" None]
  by (simp add: upt_rec one_fl_def minus_fl_def overflow_def)

text \<open>
  Read from left to right, as \<open>((w1 - w0) * y[i] + (1 - w1) * mu_1[i]) - (1 - w0) * mu_0[i]\<close>,
  the formula is not what the function computes. At \<open>y = 2^1022\<close>, \<open>w = 1\<close>, \<open>p = 0.5\<close>,
  \<open>mu_0 = 2^1023\<close> and \<open>mu_1 = - 2^1023\<close> the function returns \<open>2^1023\<close>, while the sum
  of the first two terms overflows and the expression read from the left is \<open>+inf\<close>.
\<close>

theorem aipw_te_transformation_formula_counterexample:
  "aipw_te_transformation [Fin (2 ^ 1022)] [Fin 1] (Some [Fin (1 / 2)])
       [Fin (2 ^ 1023)] [Fin (- (2 ^ 1023))] = Inr [Fin (2 ^ 1023)]
   \<and> (Fin 1 / Fin (1 / 2) - (1 - Fin 1) / (1 - Fin (1 / 2))) * Fin (2 ^ 1022)
       + (1 - Fin 1 / Fin (1 / 2)) * Fin (- (2 ^ 1023))
       - (1 - (1 - Fin 1) / (1 - Fin (1 / 2))) * Fin (2 ^ 1023) = PInf"
  by (simp add: aipw_te_transformation_Some upt_rec one_fl_def minus_fl_def overflow_def)

text \<open>
  Claim C3. On arrays of one length, the Horvitz-Thompson transformation returns the
  array whose \<open>i\<close>-th element is \<open>(w[i] / p[i] - (1 - w[i]) / (1 - p[i])) * y[i]\<close>,
  with \<open>p[i] = 0.5\<close> for every unit when no propensity array is passed; then the element
  is \<open>2 * y[i]\<close> where \<open>w[i] = 1\<close> and \<open>- 2 * y[i]\<close> where \<open>w[i] = 0\<close>.
\<close>

theorem ht_te_transformation_formula:
  assumes "length w = length y"
    and "case p of None \<Rightarrow> True | Some a \<Rightarrow> length a = length y"
  shows "ht_te_transformation y w p mu_0 mu_1 =
      Inr (map (\<lambda>i. let p_i = (case p of None \<Rightarrow> Fin (1 / 2) | Some a \<Rightarrow> a ! i)
                     in (w ! i / p_i - (1 - w ! i) / (1 - p_i)) * y ! i)
           [0..<length y])
    \<and> ht_te_transformation y w None mu_0 mu_1 =
      Inr (map (\<lambda>i. if w ! i = Fin 1 then Fin 2 * y ! i
                     else if w ! i = Fin 0 then Fin (- 2) * y ! i
                     else (w ! i / Fin (1 / 2) - (1 - w ! i) / (1 - Fin (1 / 2))) * y ! i)
           [0..<length y])"
proof
  show "ht_te_transformation y w p mu_0 mu_1 =
      Inr (map (\<lambda>i. let p_i = (case p of None \<Rightarrow> Fin (1 / 2) | Some a \<Rightarrow> a ! i)
                     in (w ! i / p_i - (1 - w ! i) / (1 - p_i)) * y ! i)
           [0..<length y])"
  proof (cases p)
    case None
    then show ?thesis
      using assms
      by (simp add: ht_te_transformation_None ht_te_transformation_Some full_def Let_def)
  next
    case (Some a)
    then show ?thesis
      using assms by (simp add: ht_te_transformation_Some Let_def)
  qed
  have "ht_te_transformation y w None mu_0 mu_1 =
      Inr (map (\<lambda>i. (w ! i / Fin (1 / 2) - (1 - w ! i) / (1 - Fin (1 / 2))) * y ! i)
           [0..<length y])"
    using assms(1)
    by (simp add: ht_te_transformation_None ht_te_transformation_Some full_def)
  also have "map (\<lambda>i. (w ! i / Fin (1 / 2) - (1 - w ! i) / (1 - Fin (1 / 2))) * y ! i)
           [0..<length y] =
      map (\<lambda>i. if w ! i = Fin 1 then Fin 2 * y ! i
                     else if w ! i = Fin 0 then Fin (- 2) * y ! i
                     else (w ! i / Fin (1 / 2) - (1 - w ! i) / (1 - Fin (1 / 2))) * y ! i)
           [0..<length y]"
    by (rule map_cong) (simp_all add: one_fl_def minus_fl_def overflow_def)
  finally show "ht_te_transformation y w None mu_0 mu_1 =
      Inr (map (\<lambda>i. if w ! i = Fin 1 then Fin 2 * y ! i
                     else if w ! i = Fin 0 then Fin (- 2) * y ! i
                     else (w ! i / Fin (1 / 2) - (1 - w ! i) / (1 - Fin (1 / 2))) * y ! i)
           [0..<length y])" .
qed

theorem ht_te_transformation_formula_witness:
  "ht_te_transformation [Fin 1, Fin 2] [Fin 1, Fin 0] (Some [Fin (1 / 4), Fin (1 / 2)]) () ()
     = Inr [Fin 4, Fin (- 4)]
   \<and> ht_te_transformation [Fin 1, Fin 2] [Fin 1, Fin 0] None () () = Inr [Fin 2, Fin (- 4)]"
  using ht_te_transformation_formula [of "[Fin 1, Fin 0]" "[Fin 1, Fin 2]"
      "Some [Fin (1 / 4), Fin (1 / 2)]" "()" "()"]
  by (simp add: upt_rec one_fl_def minus_fl_def overflow_def Let_def)




text \<open>
  Claim C6. For arrays of length \<open>n\<close>, with the propensity an array of length \<open>n\<close> or
  absent, each of the three transformations returns an array of length \<open>n\<close>; \<open>n\<close> may
  be zero.
\<close>

theorem output_length:
  assumes "length y = n" "length w = n" "length mu_0 = n" "length mu_1 = n"
    and "case p of None \<Rightarrow> True | Some a \<Rightarrow> length a = n"
  shows "(\<exists>r. ht_te_transformation y w p mu_0 mu_1 = Inr r \<and> length r = n)
       \<and> (\<exists>r. aipw_te_transformation y w p mu_0 mu_1 = Inr r \<and> length r = n)
       \<and> (\<exists>r. ra_te_transformation y w p mu_0 mu_1 = Inr r \<and> length r = n)"
proof (cases p)
  case None
  with assms show ?thesis
    by (simp add: ht_te_transformation_None ht_te_transformation_Some
        aipw_te_transformation_None aipw_te_transformation_Some
        ra_te_transformation_same_length full_def)
next
  case (Some a)
  with assms show ?thesis
    by (simp add: ht_te_transformation_Some aipw_te_transformation_Some
        ra_te_transformation_same_length)
qed

theorem output_length_witness:
  "(\<exists>r. ht_te_transformation [] [] None ([] :: ndarray) ([] :: ndarray) = Inr r \<and> length r = 0)
   \<and> (\<exists>r. aipw_te_transformation [Fin 1, Fin 2] [Fin 1, Fin 0] (Some [Fin 1, Fin 0])
          [Fin 0, Fin 0] [Fin 1, Fin 1] = Inr r \<and> length r = 2)
   \<and> (\<exists>r. ra_te_transformation [Fin 1, Fin 2] [Fin 1, Fin 0] (Some [Fin 1, Fin 0])
          [Fin 0, Fin 0] [Fin 1, Fin 1] = Inr r \<and> length r = 2)"
  using output_length [of "[]" 0 "[]" "[]" "[]" None]
    output_length [of "[Fin 1, Fin 2]" 2 "[Fin 1, Fin 0]" "[Fin 0, Fin 0]" "[Fin 1, Fin 1]"
      "Some [Fin 1, Fin 0]"]
  by simp

text \<open>
  Claim C10. No transformation checks the values of its inputs. Whatever the elements of
  the arrays are, on arrays of one length each transformation returns the array of its
  formula and raises nothing; where the propensity is \<open>0\<close> or \<open>1\<close>, the element of the
  Horvitz-Thompson and of the efficient-influence-function result is an infinity or a
  NaN.
\<close>

theorem no_input_validation:
  assumes "length w = length y" "length p = length y"
    "length mu_0 = length y" "length mu_1 = length y"
  shows "\<exists>r_ht r_aipw r_ra.
      ht_te_transformation y w (Some p) mu_0 mu_1 = Inr r_ht
    \<and> aipw_te_transformation y w (Some p) mu_0 mu_1 = Inr r_aipw
    \<and> ra_te_transformation y w (Some p) mu_0 mu_1 = Inr r_ra
    \<and> r_ht = map (\<lambda>i. (w ! i / p ! i - (1 - w ! i) / (1 - p ! i)) * y ! i) [0..<length y]
    \<and> r_aipw = map (\<lambda>i. (w ! i / p ! i - (1 - w ! i) / (1 - p ! i)) * y ! i
                     + ((1 - w ! i / p ! i) * mu_1 ! i
                        - (1 - (1 - w ! i) / (1 - p ! i)) * mu_0 ! i)) [0..<length y]
    \<and> r_ra = map (\<lambda>i. w ! i * (y ! i - mu_0 ! i) + (1 - w ! i) * (mu_1 ! i - y ! i))
               [0..<length y]
    \<and> (\<forall>i<length y. p ! i = Fin 0 \<or> p ! i = Fin 1 \<longrightarrow>
          \<not> is_finite (r_ht ! i) \<and> \<not> is_finite (r_aipw ! i))"
proof -
  have deg: "\<not> is_finite (a / q - (1 - a) / (1 - q))" if "q = Fin 0 \<or> q = Fin 1" for a q
  proof -
    from that have "\<not> is_finite (a / q) \<or> \<not> is_finite ((1 - a) / (1 - q))"
      using not_finite_div_zero [of a] not_finite_div_zero [of "1 - a"]
      by (auto simp: one_fl_def minus_fl_def overflow_def)
    then show ?thesis by (rule not_finite_sub)
  qed
  show ?thesis
    using assms
    by (simp add: ht_te_transformation_Some aipw_te_transformation_Some
        ra_te_transformation_same_length deg not_finite_mul not_finite_add)
qed

theorem no_input_validation_witness:
  "ht_te_transformation [Fin 3, Fin 1] [Fin 2, Fin (- 1)] (Some [Fin 0, Fin 5])
      [Fin 0, Fin 0] [Fin 1, Fin 1] = Inr [PInf, Fin (3 / 10)]
   \<and> ra_te_transformation [Fin 3, Fin 1] [Fin 2, Fin (- 1)] (Some [Fin 0, Fin 5])
      [Fin 0, Fin 0] [Fin 1, Fin 1] = Inr [Fin 8, Fin (- 1)]
   \<and> (\<exists>r. aipw_te_transformation [Fin 3, Fin 1] [Fin 2, Fin (- 1)] (Some [Fin 0, Fin 5])
      [Fin 0, Fin 0] [Fin 1, Fin 1] = Inr r \<and> \<not> is_finite (r ! 0))"
  using no_input_validation [of "[Fin 2, Fin (- 1)]" "[Fin 3, Fin 1]" "[Fin 0, Fin 5]"
      "[Fin 0, Fin 0]" "[Fin 1, Fin 1]"]
  by (simp add: upt_rec one_fl_def minus_fl_def overflow_def)

section \<open>Purity\<close>

lemma prefix_nth: "prefix s s1 \<Longrightarrow> r < length s \<Longrightarrow> s1 ! r = s ! r"
  by (auto simp: prefix_def nth_append)

lemma computes_mono: "computes c v s \<Longrightarrow> prefix s s1 \<Longrightarrow> computes c v s1"
  unfolding computes_def by (meson prefix_order.trans)

lemma computes_var: "r < length s \<Longrightarrow> computes (var r) (Inr (s ! r)) s"
  unfolding computes_def var_def
  by (auto simp: prefix_nth dest: prefix_length_le)

lemma computes_alloc: "computes (alloc a) (Inr a) s"
  unfolding computes_def alloc_def by simp

lemma computes_bind:
  assumes a: "computes a va s"
    and err: "\<And>e. va = Inl e \<Longrightarrow> vb = Inl e"
    and g: "\<And>x s1. prefix s s1 \<Longrightarrow> x < length s1 \<Longrightarrow> va = Inr (s1 ! x) \<Longrightarrow> computes (g x) vb s1"
  shows "computes (bind_comp a g) vb s"
  unfolding computes_def
proof (intro allI impI)
  fix s1 assume s1: "prefix s s1"
  obtain res s2 where as: "a s1 = (res, s2)" by (cases "a s1")
  show "case bind_comp a g s1 of
          (Inl e, s2) \<Rightarrow> prefix s1 s2 \<and> vb = Inl e
        | (Inr r, s2) \<Rightarrow> prefix s1 s2 \<and> r < length s2 \<and> vb = Inr (s2 ! r)"
  proof (cases res)
    case (Inl e)
    with a s1 as have "prefix s1 s2" "va = Inl e"
      unfolding computes_def by (auto dest!: spec [of _ s1])
    with Inl as err show ?thesis by (simp add: bind_comp_def)
  next
    case (Inr x)
    with a s1 as have p: "prefix s1 s2" and x: "x < length s2" and va: "va = Inr (s2 ! x)"
      unfolding computes_def by (auto dest!: spec [of _ s1])
    from s1 p have "prefix s s2" by (rule prefix_order.trans)
    then have "computes (g x) vb s2" using x va by (rule g)
    then have "case g x s2 of
          (Inl e, s3) \<Rightarrow> prefix s2 s3 \<and> vb = Inl e
        | (Inr r, s3) \<Rightarrow> prefix s2 s3 \<and> r < length s3 \<and> vb = Inr (s3 ! r)"
      unfolding computes_def by simp
    with p Inr as show ?thesis
      by (auto simp: bind_comp_def split: sum.splits prod.splits intro: prefix_order.trans)
  qed
qed


lemma computes_broadcast:
  assumes "x < length s" "y < length s"
  shows "computes (\<lambda>s. case broadcast f (s ! x) (s ! y) of
                          Inl e \<Rightarrow> (Inl e, s)
                        | Inr r \<Rightarrow> alloc r s)
           (broadcast f (s ! x) (s ! y)) s"
  unfolding computes_def
proof (intro allI impI)
  fix s1 assume "prefix s s1"
  with assms have "s1 ! x = s ! x" "s1 ! y = s ! y" by (simp_all add: prefix_nth)
  then show "case (case broadcast f (s1 ! x) (s1 ! y) of
                     Inl e \<Rightarrow> (Inl e, s1)
                   | Inr r \<Rightarrow> alloc r s1) of
          (Inl e, s2) \<Rightarrow> prefix s1 s2 \<and> broadcast f (s ! x) (s ! y) = Inl e
        | (Inr r, s2) \<Rightarrow> prefix s1 s2 \<and> r < length s2
            \<and> broadcast f (s ! x) (s ! y) = Inr (s2 ! r)"
    by (simp add: alloc_def split: sum.splits)
qed

lemma computes_elementwise:
  assumes a: "computes a va s" and b: "computes b vb s"
  shows "computes (np_elementwise f a b) (elementwise f va vb) s"
  unfolding np_elementwise_def
proof (rule computes_bind [OF a])
  show "elementwise f va vb = Inl e" if "va = Inl e" for e
    using that by (simp add: elementwise_def)
next
  fix x s1
  assume s1: "prefix s s1" and x: "x < length s1" and va: "va = Inr (s1 ! x)"
  from b s1 have b1: "computes b vb s1" by (rule computes_mono)
  show "computes (bind_comp b (\<lambda>y s. case broadcast f (s ! x) (s ! y) of
                          Inl e \<Rightarrow> (Inl e, s)
                        | Inr r \<Rightarrow> alloc r s)) (elementwise f va vb) s1"
  proof (rule computes_bind [OF b1])
    show "elementwise f va vb = Inl e" if "vb = Inl e" for e
      using that va by (simp add: elementwise_def)
  next
    fix y s2
    assume s2: "prefix s1 s2" and y: "y < length s2" and vb: "vb = Inr (s2 ! y)"
    from s2 x have x2: "x < length s2" "s2 ! x = s1 ! x"
      by (auto simp: prefix_nth dest: prefix_length_le)
    have "elementwise f va vb = broadcast f (s2 ! x) (s2 ! y)"
      using va vb x2 by (simp add: elementwise_def)
    then show "computes (\<lambda>s. case broadcast f (s ! x) (s ! y) of
                          Inl e \<Rightarrow> (Inl e, s)
                        | Inr r \<Rightarrow> alloc r s) (elementwise f va vb) s2"
      using computes_broadcast [OF x2(1) y, of f] by simp
  qed
qed

lemma computes_scalar_sub:
  assumes a: "computes a va s"
  shows "computes (np_scalar_sub c a) (scalar_sub c va) s"
  unfolding np_scalar_sub_def
proof (rule computes_bind [OF a])
  show "scalar_sub c va = Inl e" if "va = Inl e" for e
    using that by (simp add: scalar_sub_def)
next
  fix x s1
  assume x: "x < length s1" and va: "va = Inr (s1 ! x)"
  show "computes (\<lambda>s. alloc (map (\<lambda>v. c - v) (s ! x)) s) (scalar_sub c va) s1"
    unfolding computes_def using x va
    by (auto simp: alloc_def scalar_sub_def prefix_nth)
qed

lemmas np_defs = np_add_def np_sub_def np_mul_def np_div_def

lemma computes_propensity:
  assumes "y < length s" "case p of None \<Rightarrow> True | Some a \<Rightarrow> a < length s"
  shows "computes (case p of None \<Rightarrow> np_full y (Fin (1 / 2)) | Some a \<Rightarrow> var a)
           (Inr (case map_option ((!) s) p of
                   None \<Rightarrow> full (length (s ! y)) (Fin (1 / 2))
                 | Some a \<Rightarrow> a)) s"
proof (cases p)
  case None
  then show ?thesis
    using assms unfolding computes_def np_full_def alloc_def
    by (auto simp: prefix_nth)
next
  case (Some a)
  then show ?thesis using assms by (simp add: computes_var)
qed

lemma computes_ht_te_transformation:
  assumes "y < length s" "w < length s" "case p of None \<Rightarrow> True | Some a \<Rightarrow> a < length s"
  shows "computes (ht_te_transformation_store y w p mu_0 mu_1)
           (ht_te_transformation (s ! y) (s ! w) (map_option ((!) s) p) nu_0 nu_1) s"
  unfolding ht_te_transformation_store_def
proof (rule computes_bind [OF computes_propensity [OF assms(1,3)]])
  fix q s1
  let ?p = "case map_option ((!) s) p of
              None \<Rightarrow> full (length (s ! y)) (Fin (1 / 2)) | Some a \<Rightarrow> a"
  assume s1: "prefix s s1" and q: "q < length s1" and "Inr ?p = (Inr (s1 ! q) :: error + ndarray)"
  then have p: "?p = s1 ! q" by simp
  have vy: "computes (var y) (Inr (s ! y)) s1" and vw: "computes (var w) (Inr (s ! w)) s1"
    using assms s1 by (auto intro: computes_mono [OF computes_var])
  have vq: "computes (var q) (Inr ?p) s1"
    unfolding p using q by (rule computes_var)
  have "ht_te_transformation (s ! y) (s ! w) (map_option ((!) s) p) nu_0 nu_1 =
      arr_mul (arr_sub (arr_div (Inr (s ! w)) (Inr ?p))
                       (arr_div (scalar_sub 1 (Inr (s ! w))) (scalar_sub 1 (Inr ?p))))
              (Inr (s ! y))"
    by (cases p) (simp_all add: ht_te_transformation_def Let_def)
  then show "computes
        (np_mul (np_sub (np_div (var w) (var q))
                        (np_div (np_scalar_sub 1 (var w)) (np_scalar_sub 1 (var q))))
                (var y))
        (ht_te_transformation (s ! y) (s ! w) (map_option ((!) s) p) nu_0 nu_1) s1"
    unfolding np_defs arr_defs
    by (simp only:) (intro computes_elementwise computes_scalar_sub vy vw vq)
qed simp

lemma computes_ra_te_transformation:
  assumes "y < length s" "w < length s" "mu_0 < length s" "mu_1 < length s"
  shows "computes (ra_te_transformation_store y w p mu_0 mu_1)
           (ra_te_transformation (s ! y) (s ! w) p' (s ! mu_0) (s ! mu_1)) s"
  unfolding ra_te_transformation_store_def ra_te_transformation_def np_defs arr_defs
  by (intro computes_elementwise computes_scalar_sub computes_var assms)


lemma computes_aipw_te_transformation:
  assumes "y < length s" "w < length s" "mu_0 < length s" "mu_1 < length s"
    and "case p of None \<Rightarrow> True | Some a \<Rightarrow> a < length s"
  shows "computes (aipw_te_transformation_store y w p mu_0 mu_1)
           (aipw_te_transformation (s ! y) (s ! w) (map_option ((!) s) p) (s ! mu_0) (s ! mu_1)) s"
  unfolding aipw_te_transformation_store_def
proof (rule computes_bind [OF computes_propensity [OF assms(1,5)]])
  fix q s1
  let ?p = "case map_option ((!) s) p of
              None \<Rightarrow> full (length (s ! y)) (Fin (1 / 2)) | Some a \<Rightarrow> a"
  let ?w_1 = "elementwise (/) (Inr (s ! w)) (Inr ?p)"
  let ?w_0 = "elementwise (/) (scalar_sub 1 (Inr (s ! w))) (scalar_sub 1 (Inr ?p))"
  let ?res = "elementwise (+) (elementwise (*) (elementwise (-) ?w_1 ?w_0) (Inr (s ! y)))
           (elementwise (-) (elementwise (*) (scalar_sub 1 ?w_1) (Inr (s ! mu_1)))
                    (elementwise (*) (scalar_sub 1 ?w_0) (Inr (s ! mu_0))))"
  assume s1: "prefix s s1" and q: "q < length s1"
    and "Inr ?p = (Inr (s1 ! q) :: error + ndarray)"
  then have p: "?p = s1 ! q" by simp
  have res: "aipw_te_transformation (s ! y) (s ! w) (map_option ((!) s) p) (s ! mu_0) (s ! mu_1)
      = ?res"
    by (cases p) (simp_all add: aipw_te_transformation_def Let_def arr_defs)
  have vw: "computes (var w) (Inr (s ! w)) s1"
    using assms s1 by (auto intro: computes_mono [OF computes_var])
  have vq: "computes (var q) (Inr ?p) s1"
    unfolding p using q by (rule computes_var)
  have w_1: "computes (np_div (var w) (var q)) ?w_1 s1"
    unfolding np_defs by (intro computes_elementwise vw vq)
  have w_0: "computes (np_div (np_scalar_sub 1 (var w)) (np_scalar_sub 1 (var q))) ?w_0 s1"
    unfolding np_defs by (intro computes_elementwise computes_scalar_sub vw vq)
  have "computes
        (bind_comp (np_div (var w) (var q)) (\<lambda>w_1.
         bind_comp (np_div (np_scalar_sub 1 (var w)) (np_scalar_sub 1 (var q))) (\<lambda>w_0.
           np_add (np_mul (np_sub (var w_1) (var w_0)) (var y))
             (np_sub (np_mul (np_scalar_sub 1 (var w_1)) (var mu_1))
                     (np_mul (np_scalar_sub 1 (var w_0)) (var mu_0))))))
        ?res s1"
  proof (rule computes_bind [OF w_1])
    show "?res = Inl e" if "?w_1 = Inl e" for e
      using that by (simp add: elementwise_def)
  next
    fix r1 s2
    assume s2: "prefix s1 s2" and r1: "r1 < length s2" and v1: "?w_1 = Inr (s2 ! r1)"
    show "computes
        (bind_comp (np_div (np_scalar_sub 1 (var w)) (np_scalar_sub 1 (var q))) (\<lambda>w_0.
           np_add (np_mul (np_sub (var r1) (var w_0)) (var y))
             (np_sub (np_mul (np_scalar_sub 1 (var r1)) (var mu_1))
                     (np_mul (np_scalar_sub 1 (var w_0)) (var mu_0)))))
        ?res s2"
    proof (rule computes_bind [OF computes_mono [OF w_0 s2]])
      show "?res = Inl e" if "?w_0 = Inl e" for e
        using that v1 by (simp add: elementwise_def)
    next
      fix r0 s3
      assume s3: "prefix s2 s3" and r0: "r0 < length s3" and v0: "?w_0 = Inr (s3 ! r0)"
      from s1 s2 s3 have s3': "prefix s s3" by (meson prefix_order.trans)
      have vy: "computes (var y) (Inr (s ! y)) s3"
        and vm0: "computes (var mu_0) (Inr (s ! mu_0)) s3"
        and vm1: "computes (var mu_1) (Inr (s ! mu_1)) s3"
        using assms s3' by (auto intro: computes_mono [OF computes_var])
      have vr1: "computes (var r1) ?w_1 s3"
        unfolding v1 using r1 s3 by (intro computes_mono [OF computes_var])
      have vr0: "computes (var r0) ?w_0 s3"
        unfolding v0 using r0 by (rule computes_var)
      show "computes
          (np_add (np_mul (np_sub (var r1) (var r0)) (var y))
             (np_sub (np_mul (np_scalar_sub 1 (var r1)) (var mu_1))
                     (np_mul (np_scalar_sub 1 (var r0)) (var mu_0))))
          ?res s3"
        unfolding np_defs
        by (intro computes_elementwise computes_scalar_sub vy vm0 vm1 vr1 vr0)
    qed
  qed
  then show "computes
        (bind_comp (np_div (var w) (var q)) (\<lambda>w_1.
         bind_comp (np_div (np_scalar_sub 1 (var w)) (np_scalar_sub 1 (var q))) (\<lambda>w_0.
           np_add (np_mul (np_sub (var w_1) (var w_0)) (var y))
             (np_sub (np_mul (np_scalar_sub 1 (var w_1)) (var mu_1))
                     (np_mul (np_scalar_sub 1 (var w_0)) (var mu_0))))))
        (aipw_te_transformation (s ! y) (s ! w) (map_option ((!) s) p) (s ! mu_0) (s ! mu_1)) s1"
    by (simp only: res)
qed simp

lemma computes_outcome:
  assumes "computes c v s"
  shows "prefix s (snd (c s)) \<and> outcome c s = v"
proof -
  from assms have "case c s of
           (Inl e, s2) \<Rightarrow> prefix s s2 \<and> v = Inl e
         | (Inr r, s2) \<Rightarrow> prefix s s2 \<and> r < length s2 \<and> v = Inr (s2 ! r)"
    unfolding computes_def by simp
  then show ?thesis
    by (auto simp: outcome_def split: prod.splits sum.splits)
qed

text \<open>
  Claim C8. The three transformations are pure and deterministic. Run on a store that
  holds the input arrays, each of them leaves every array of the store as it was (the
  final store is the initial one with new arrays added at its end), and what it yields is
  the value of the function of the contents of its input arrays: nothing else in the store
  has a part in it, so two calls on the same input values yield the same output.
\<close>

theorem transformations_pure:
  assumes "y < length s" "w < length s" "mu_0 < length s" "mu_1 < length s"
    and "case p of None \<Rightarrow> True | Some a \<Rightarrow> a < length s"
  shows "prefix s (snd (ht_te_transformation_store y w p mu_0 mu_1 s))
       \<and> outcome (ht_te_transformation_store y w p mu_0 mu_1) s =
           ht_te_transformation (s ! y) (s ! w) (map_option ((!) s) p) (s ! mu_0) (s ! mu_1)
       \<and> prefix s (snd (aipw_te_transformation_store y w p mu_0 mu_1 s))
       \<and> outcome (aipw_te_transformation_store y w p mu_0 mu_1) s =
           aipw_te_transformation (s ! y) (s ! w) (map_option ((!) s) p) (s ! mu_0) (s ! mu_1)
       \<and> prefix s (snd (ra_te_transformation_store y w p mu_0 mu_1 s))
       \<and> outcome (ra_te_transformation_store y w p mu_0 mu_1) s =
           ra_te_transformation (s ! y) (s ! w) (map_option ((!) s) p) (s ! mu_0) (s ! mu_1)"
proof -
  note ht = computes_ht_te_transformation [OF assms(1,2,5), of mu_0 mu_1 "s ! mu_0" "s ! mu_1"]
  note aipw = computes_aipw_te_transformation [OF assms]
  note ra = computes_ra_te_transformation [OF assms(1-4), of p "map_option ((!) s) p"]
  show ?thesis
    using computes_outcome [OF ht] computes_outcome [OF aipw] computes_outcome [OF ra]
    by (intro conjI) (erule conjunct1 conjunct2)+
qed

theorem transformations_pure_witness:
  "outcome (ht_te_transformation_store 0 1 (Some 2) (3 :: ref) (4 :: ref))
      [[Fin 1, Fin 2], [Fin 1, Fin 0], [Fin (1 / 2), Fin (1 / 2)], [Fin 0, Fin 0], [Fin 1, Fin 1]]
     = Inr [Fin 2, Fin (- 4)]
   \<and> outcome (aipw_te_transformation_store 0 1 (Some 2) 3 4)
      [[Fin 1, Fin 2], [Fin 1, Fin 0], [Fin (1 / 2), Fin (1 / 2)], [Fin 0, Fin 0], [Fin 1, Fin 1]]
     = Inr [Fin 1, Fin (- 3)]
   \<and> outcome (ra_te_transformation_store 0 1 (Some (2 :: ref)) 3 4)
      [[Fin 1, Fin 2], [Fin 1, Fin 0], [Fin (1 / 2), Fin (1 / 2)], [Fin 0, Fin 0], [Fin 1, Fin 1]]
     = Inr [Fin 1, Fin (- 1)]
   \<and> prefix
      [[Fin 1, Fin 2], [Fin 1, Fin 0], [Fin (1 / 2), Fin (1 / 2)], [Fin 0, Fin 0], [Fin 1, Fin 1]]
      (snd (aipw_te_transformation_store 0 1 (Some 2) 3 4
      [[Fin 1, Fin 2], [Fin 1, Fin 0], [Fin (1 / 2), Fin (1 / 2)], [Fin 0, Fin 0], [Fin 1, Fin 1]]))"
  using transformations_pure [of 0
      "[[Fin 1, Fin 2], [Fin 1, Fin 0], [Fin (1 / 2), Fin (1 / 2)], [Fin 0, Fin 0], [Fin 1, Fin 1]]"
      1 3 4 "Some 2"]
  by (simp add: ht_te_transformation_def aipw_te_transformation_def ra_te_transformation_def
      arr_defs elementwise_def broadcast_def scalar_sub_def one_fl_def minus_fl_def overflow_def)

end
